theory Spec2Isabelle
  imports Complex_Main
begin

section \<open>Numbers\<close>

text \<open>
  The engine of \<^verbatim>\<open>backend/src/utils/calculations.ts\<close> computes on JavaScript
  numbers. Finite numbers are modelled as exact reals: the rounding error of IEEE
  doubles and the sign of zero are not modelled. Arguments and trade columns are
  finite. The non-finite values a division by zero produces are kept, as the
  constructors of \<open>number\<close>.
\<close>

datatype number = Fin real | PosInf | NegInf | NaN

text \<open>JavaScript's \<^verbatim>\<open>a / b\<close> on finite operands: it never raises.\<close>

definition js_div :: "real \<Rightarrow> real \<Rightarrow> number" where
  "js_div a b =
     (if b \<noteq> 0 then Fin (a / b)
      else if a > 0 then PosInf
      else if a < 0 then NegInf
      else NaN)"

text \<open>\<^verbatim>\<open>n * c\<close> and \<^verbatim>\<open>n / c\<close> for a finite constant \<open>c\<close>.\<close>

fun js_times :: "number \<Rightarrow> real \<Rightarrow> number" where
  "js_times (Fin x) c = Fin (x * c)"
| "js_times PosInf c = (if c > 0 then PosInf else if c < 0 then NegInf else NaN)"
| "js_times NegInf c = (if c > 0 then NegInf else if c < 0 then PosInf else NaN)"
| "js_times NaN c = NaN"

fun js_over :: "number \<Rightarrow> real \<Rightarrow> number" where
  "js_over (Fin x) c = js_div x c"
| "js_over PosInf c = (if c \<ge> 0 then PosInf else NegInf)"
| "js_over NegInf c = (if c \<ge> 0 then NegInf else PosInf)"
| "js_over NaN c = NaN"

text \<open>\<^verbatim>\<open>n > c\<close>: false on NaN.\<close>

fun js_gt :: "number \<Rightarrow> real \<Rightarrow> bool" where
  "js_gt (Fin x) c = (x > c)"
| "js_gt PosInf c = True"
| "js_gt NegInf c = False"
| "js_gt NaN c = False"

text \<open>
  \<^verbatim>\<open>Math.round\<close>: the nearest integer, a tie going towards plus infinity;
  non-finite arguments are returned as they are.
\<close>

definition Math_round :: "real \<Rightarrow> real" where
  "Math_round x = of_int \<lfloor>x + 1 / 2\<rfloor>"

fun Math_round_n :: "number \<Rightarrow> number" where
  "Math_round_n (Fin x) = Fin (Math_round x)"
| "Math_round_n n = n"

section \<open>Positions and the result of calculatePnL\<close>

datatype Position = BELI | JUAL

record PnLResult =
  pnl :: real
  pnlPercent :: real

section \<open>calculatePnL\<close>

text \<open>
  The parameter \<^verbatim>\<open>fees: number = 0\<close> is an option: \<open>None\<close> is an omitted
  argument. The division is made only under the guard \<open>investment > 0\<close>.
\<close>

definition calculatePnL ::
  "Position \<Rightarrow> real \<Rightarrow> real \<Rightarrow> real \<Rightarrow> real option \<Rightarrow> PnLResult" where
  "calculatePnL position entryPrice exitPrice quantity fees_arg =
     (let fees = (case fees_arg of None \<Rightarrow> 0 | Some f \<Rightarrow> f);
          pnl_v = (if position = BELI
                   then (exitPrice - entryPrice) * quantity - fees
                   else (entryPrice - exitPrice) * quantity - fees);
          investment = entryPrice * quantity;
          pnlPercent_v = (if investment > 0 then (pnl_v / investment) * 100 else 0)
      in \<lparr>pnl = pnl_v, pnlPercent = pnlPercent_v\<rparr>)"

section \<open>Trades\<close>

text \<open>
  The Prisma \<^verbatim>\<open>Trade\<close> row, with the columns the engine reads. Nullable
  columns are options; timestamps are milliseconds since the epoch, what
  \<^verbatim>\<open>getTime()\<close> returns.
\<close>

record Trade =
  asset :: string
  position :: Position
  entryPrice :: real
  exitPrice :: "real option"
  quantity :: real
  fees :: real
  openedAt :: int
  closedAt :: "int option"
  pnl :: "real option"
  pnlPercent :: "real option"
  isOpen :: bool

text \<open>\<^verbatim>\<open>t.pnl ?? 0\<close>\<close>

definition pnl_or_0 :: "Trade \<Rightarrow> real" where
  "pnl_or_0 t = (case pnl t of None \<Rightarrow> 0 | Some p \<Rightarrow> p)"

section \<open>calculateMaxDrawdown\<close>

text \<open>\<^verbatim>\<open>a.closedAt ? new Date(a.closedAt).getTime() : 0\<close>, the sort key.\<close>

definition closeTime :: "Trade \<Rightarrow> int" where
  "closeTime a = (case closedAt a of None \<Rightarrow> 0 | Some d \<Rightarrow> d)"

text \<open>
  The body of \<^verbatim>\<open>for (const trade of sortedTrades)\<close>, with the three mutable
  locals as arguments; the result is \<open>maxDrawdown\<close> when the list is exhausted.
\<close>

fun drawdownLoop :: "Trade list \<Rightarrow> real \<Rightarrow> real \<Rightarrow> real \<Rightarrow> real" where
  "drawdownLoop [] peak maxDrawdown cumulative = maxDrawdown"
| "drawdownLoop (trade # rest) peak maxDrawdown cumulative =
     (let cumulative1 = cumulative + pnl_or_0 trade;
          peak1 = (if cumulative1 > peak then cumulative1 else peak);
          drawdown = peak1 - cumulative1;
          maxDrawdown1 = (if drawdown > maxDrawdown then drawdown else maxDrawdown)
      in drawdownLoop rest peak1 maxDrawdown1 cumulative1)"

text \<open>
  \<^verbatim>\<open>Array.prototype.sort\<close> with the comparator \<open>dateA - dateB\<close> is a stable sort
  by the key; \<open>sort_key\<close> is the stable insertion sort of the list library.
\<close>

definition calculateMaxDrawdown :: "Trade list \<Rightarrow> real" where
  "calculateMaxDrawdown trades =
     (if length trades = 0 then 0
      else (let sortedTrades = sort_key closeTime trades
            in drawdownLoop sortedTrades 0 0 0))"

section \<open>calculateMetrics\<close>

text \<open>
  The local constants of \<^verbatim>\<open>calculateMetrics\<close>, each a function of the list
  \<open>closedTrades\<close>. Those that share a name with a field of the result carry
  the suffix \<open>_full\<close>: they are the values before the rounding of the return
  statement. Every division stands under the guard the source writes.
\<close>

definition closedTrades_metrics :: "Trade list \<Rightarrow> Trade list" where
  "closedTrades_metrics trades = filter (\<lambda>t. \<not> isOpen t \<and> pnl t \<noteq> None) trades"

definition winningTrades_of :: "Trade list \<Rightarrow> Trade list" where
  "winningTrades_of closedTrades = filter (\<lambda>t. pnl_or_0 t > 0) closedTrades"

definition losingTrades_of :: "Trade list \<Rightarrow> Trade list" where
  "losingTrades_of closedTrades = filter (\<lambda>t. pnl_or_0 t < 0) closedTrades"

definition grossProfit :: "Trade list \<Rightarrow> real" where
  "grossProfit closedTrades =
     foldl (\<lambda>sum t. sum + pnl_or_0 t) 0 (winningTrades_of closedTrades)"

definition grossLoss :: "Trade list \<Rightarrow> real" where
  "grossLoss closedTrades =
     \<bar>foldl (\<lambda>sum t. sum + pnl_or_0 t) 0 (losingTrades_of closedTrades)\<bar>"

definition winRate_full :: "Trade list \<Rightarrow> real" where
  "winRate_full closedTrades =
     (if length closedTrades > 0
      then (real (length (winningTrades_of closedTrades)) / real (length closedTrades)) * 100
      else 0)"

definition avgWin_full :: "Trade list \<Rightarrow> real" where
  "avgWin_full closedTrades =
     (if length (winningTrades_of closedTrades) > 0
      then grossProfit closedTrades / real (length (winningTrades_of closedTrades))
      else 0)"

definition avgLoss_full :: "Trade list \<Rightarrow> real" where
  "avgLoss_full closedTrades =
     (if length (losingTrades_of closedTrades) > 0
      then grossLoss closedTrades / real (length (losingTrades_of closedTrades))
      else 0)"

definition profitFactor_full :: "Trade list \<Rightarrow> number" where
  "profitFactor_full closedTrades =
     (if grossLoss closedTrades > 0 then Fin (grossProfit closedTrades / grossLoss closedTrades)
      else if grossProfit closedTrades > 0 then PosInf
      else Fin 0)"

definition lossRate :: "Trade list \<Rightarrow> real" where
  "lossRate closedTrades = 100 - winRate_full closedTrades"

definition expectancy_full :: "Trade list \<Rightarrow> real" where
  "expectancy_full closedTrades =
     (winRate_full closedTrades / 100 * avgWin_full closedTrades)
     - (lossRate closedTrades / 100 * avgLoss_full closedTrades)"

text \<open>
  \<^verbatim>\<open>Math.round(v * 100) / 100\<close>, on a finite value and on a number. The
  product and the quotient are exact here. On doubles the product is rounded, so a
  value that is a tie only in exact arithmetic can come out one hundredth lower in
  the source: \<open>0.575 * 100\<close> is \<open>57.49999999999999\<close> there and gives \<open>0.57\<close>, where
  \<open>round2\<close> gives \<open>0.58\<close>. Away from such ties the two agree.
\<close>

definition round2 :: "real \<Rightarrow> real" where
  "round2 v = Math_round (v * 100) / 100"

definition round2_n :: "number \<Rightarrow> number" where
  "round2_n v = js_over (Math_round_n (js_times v 100)) 100"

text \<open>
  \<^verbatim>\<open>PerformanceMetrics\<close>. Only \<open>profitFactor\<close> can be non-finite
  (\<^verbatim>\<open>Infinity\<close>), so it alone has the type \<open>number\<close>.
\<close>

record PerformanceMetrics =
  totalTrades :: nat
  winningTrades :: nat
  losingTrades :: nat
  winRate :: real
  avgWin :: real
  avgLoss :: real
  profitFactor :: number
  maxDrawdown :: real
  expectancy :: real

definition calculateMetrics :: "Trade list \<Rightarrow> PerformanceMetrics" where
  "calculateMetrics trades =
     (let closedTrades = closedTrades_metrics trades
      in if length closedTrades = 0
         then \<lparr>totalTrades = 0, winningTrades = 0, losingTrades = 0, winRate = 0,
               avgWin = 0, avgLoss = 0, profitFactor = Fin 0, maxDrawdown = 0,
               expectancy = 0\<rparr>
         else \<lparr>totalTrades = length closedTrades,
               winningTrades = length (winningTrades_of closedTrades),
               losingTrades = length (losingTrades_of closedTrades),
               winRate = round2 (winRate_full closedTrades),
               avgWin = round2 (avgWin_full closedTrades),
               avgLoss = round2 (avgLoss_full closedTrades),
               profitFactor = round2_n (profitFactor_full closedTrades),
               maxDrawdown = round2 (calculateMaxDrawdown closedTrades),
               expectancy = round2 (expectancy_full closedTrades)\<rparr>)"

section \<open>detectBehaviorWarnings\<close>

datatype WarningType = OVERTRADING | REVENGE_TRADING | HIGH_RISK | CONSECUTIVE_LOSS

datatype Severity = LOW | MEDIUM | HIGH

text \<open>
  \<^verbatim>\<open>BehaviorWarning\<close>. The \<open>date\<close> is the timestamp whose ISO rendering the
  source stores; the \<open>message\<close> text is not modelled.
\<close>

record BehaviorWarning =
  type :: WarningType
  severity :: Severity
  date :: int

text \<open>
  The function reads the clock: \<open>now\<close> is \<^verbatim>\<open>new Date()\<close> and \<open>startOfDay\<close> is
  \<^verbatim>\<open>setHours(0, 0, 0, 0)\<close>, local midnight of a timestamp. Both are parameters.
\<close>

definition todayTrades_of :: "(int \<Rightarrow> int) \<Rightarrow> int \<Rightarrow> Trade list \<Rightarrow> Trade list" where
  "todayTrades_of startOfDay today trades =
     filter (\<lambda>t. startOfDay (openedAt t) = today) trades"

definition overtradingWarnings :: "int \<Rightarrow> Trade list \<Rightarrow> BehaviorWarning list" where
  "overtradingWarnings today todayTrades =
     (if length todayTrades > 10
      then [\<lparr>type = OVERTRADING,
             severity = (if length todayTrades > 15 then HIGH else MEDIUM),
             date = today\<rparr>]
      else [])"

definition closedTrades_behavior :: "Trade list \<Rightarrow> Trade list" where
  "closedTrades_behavior trades = filter (\<lambda>t. \<not> isOpen t \<and> closedAt t \<noteq> None) trades"

text \<open>
  \<^verbatim>\<open>for (let i = 1; i < closedTrades.length; i++)\<close>: the warnings pushed from
  index \<open>i\<close> on; \<^verbatim>\<open>break\<close> ends the recursion. \<^verbatim>\<open>prevTrade.pnl && prevTrade.pnl < 0\<close>
  is false on null and on 0.
\<close>

function revengeLoop :: "Trade list \<Rightarrow> nat \<Rightarrow> BehaviorWarning list" where
  "revengeLoop closedTrades i =
     (if i < length closedTrades
      then (let prevTrade = closedTrades ! (i - 1);
                currTrade = closedTrades ! i
            in case (pnl prevTrade, closedAt prevTrade) of
                 (Some p, Some c) \<Rightarrow>
                   if p \<noteq> 0 \<and> p < 0
                   then (let timeDiff = openedAt currTrade - c
                         in if timeDiff < 5 * 60 * 1000
                            then [\<lparr>type = REVENGE_TRADING, severity = HIGH,
                                   date = openedAt currTrade\<rparr>]
                            else revengeLoop closedTrades (i + 1))
                   else revengeLoop closedTrades (i + 1)
               | _ \<Rightarrow> revengeLoop closedTrades (i + 1))
      else [])"
  by pat_completeness auto
termination
  by (relation "measure (\<lambda>(closedTrades, i). length closedTrades - i)") auto

declare revengeLoop.simps [simp del]

text \<open>
  The risk rule. The division \<^verbatim>\<open>riskAmount / accountBalance\<close> has no guard in the
  source, so it is the JavaScript division \<open>js_div\<close>.
\<close>

definition riskPercent_of :: "Trade \<Rightarrow> real \<Rightarrow> number" where
  "riskPercent_of trade accountBalance =
     (let riskAmount = entryPrice trade * quantity trade
      in js_times (js_div riskAmount accountBalance) 100)"

definition riskWarnings :: "Trade list \<Rightarrow> real \<Rightarrow> BehaviorWarning list" where
  "riskWarnings todayTrades accountBalance =
     concat (map (\<lambda>trade.
       let riskPercent = riskPercent_of trade accountBalance
       in if js_gt riskPercent 2
          then [\<lparr>type = HIGH_RISK,
                 severity = (if js_gt riskPercent 5 then HIGH else MEDIUM),
                 date = openedAt trade\<rparr>]
          else []) todayTrades)"

text \<open>
  \<^verbatim>\<open>for (let i = recentClosed.length - 1; i >= 0; i--)\<close>: the second argument is
  \<open>i + 1\<close>, the third the counter \<open>consecutiveLosses\<close>.
\<close>

primrec lossLoop :: "Trade list \<Rightarrow> nat \<Rightarrow> nat \<Rightarrow> nat" where
  "lossLoop recentClosed 0 consecutiveLosses = consecutiveLosses"
| "lossLoop recentClosed (Suc i) consecutiveLosses =
     (if pnl_or_0 (recentClosed ! i) < 0
      then lossLoop recentClosed i (consecutiveLosses + 1)
      else consecutiveLosses)"

text \<open>\<^verbatim>\<open>closedTrades.slice(-5)\<close> and the count of the loop.\<close>

definition recentClosed_of :: "Trade list \<Rightarrow> Trade list" where
  "recentClosed_of closedTrades = drop (length closedTrades - 5) closedTrades"

definition consecutiveLosses_of :: "Trade list \<Rightarrow> nat" where
  "consecutiveLosses_of closedTrades =
     (let recentClosed = recentClosed_of closedTrades
      in lossLoop recentClosed (length recentClosed) 0)"

definition consecutiveLossWarnings :: "int \<Rightarrow> Trade list \<Rightarrow> BehaviorWarning list" where
  "consecutiveLossWarnings today closedTrades =
     (let consecutiveLosses = consecutiveLosses_of closedTrades
      in if consecutiveLosses \<ge> 3
         then [\<lparr>type = CONSECUTIVE_LOSS,
                severity = (if consecutiveLosses \<ge> 5 then HIGH else MEDIUM),
                date = today\<rparr>]
         else [])"

text \<open>
  The parameter \<^verbatim>\<open>accountBalance: number = 10000\<close> is an option. The four rules
  push onto \<open>warnings\<close> in this order.
\<close>

definition detectBehaviorWarnings ::
  "(int \<Rightarrow> int) \<Rightarrow> int \<Rightarrow> Trade list \<Rightarrow> real option \<Rightarrow> BehaviorWarning list" where
  "detectBehaviorWarnings startOfDay now trades accountBalance_arg =
     (let accountBalance = (case accountBalance_arg of None \<Rightarrow> 10000 | Some b \<Rightarrow> b);
          today = startOfDay now;
          todayTrades = todayTrades_of startOfDay today trades;
          closedTrades = closedTrades_behavior trades
      in overtradingWarnings today todayTrades
         @ revengeLoop closedTrades 1
         @ riskWarnings todayTrades accountBalance
         @ consecutiveLossWarnings today closedTrades)"


section \<open>The specification's reading of the metrics and the rules\<close>

text \<open>
  Gross profit is the sum of pnl over the trades with \<open>pnl > 0\<close>, gross loss the
  absolute value of the sum of pnl over the trades with \<open>pnl < 0\<close>; the profit
  factor is their quotient, plus infinity without losses, 0 without either.
\<close>

definition spec_grossProfit :: "Trade list \<Rightarrow> real" where
  "spec_grossProfit cs = sum_list (map pnl_or_0 (filter (\<lambda>t. pnl_or_0 t > 0) cs))"

definition spec_grossLoss :: "Trade list \<Rightarrow> real" where
  "spec_grossLoss cs = \<bar>sum_list (map pnl_or_0 (filter (\<lambda>t. pnl_or_0 t < 0) cs))\<bar>"

definition spec_profitFactor :: "Trade list \<Rightarrow> number" where
  "spec_profitFactor cs =
     (if spec_grossLoss cs > 0 then Fin (spec_grossProfit cs / spec_grossLoss cs)
      else if spec_grossProfit cs > 0 then PosInf
      else Fin 0)"

text \<open>
  Rounding to 2 decimal places, a tie going away from zero: the rounding the
  specification names.
\<close>

definition round_half_away2 :: "real \<Rightarrow> real" where
  "round_half_away2 v = sgn v * of_int \<lfloor>\<bar>v\<bar> * 100 + 1 / 2\<rfloor> / 100"

text \<open>
  Rounding to 2 decimal places with the tie left open: \<open>r\<close> is a whole number of
  hundredths, at most half a hundredth from \<open>v\<close>. At a tie both neighbours
  qualify. A value that is not finite is kept.
\<close>

definition nearest_hundredth :: "real \<Rightarrow> real \<Rightarrow> bool" where
  "nearest_hundredth r v \<longleftrightarrow> of_int \<lfloor>r * 100\<rfloor> = r * 100 \<and> \<bar>r - v\<bar> \<le> 1 / 200"

fun nearest_hundredth_n :: "number \<Rightarrow> number \<Rightarrow> bool" where
  "nearest_hundredth_n (Fin r) (Fin v) = nearest_hundredth r v"
| "nearest_hundredth_n r (Fin v) = False"
| "nearest_hundredth_n r v = (r = v)"

text \<open>
  The loss streak of the 5 most recently closed trades: order the closed trades by
  close time, take the five closed last, the most recent first, and count the losses
  before the first trade that is not one.
\<close>

definition spec_lossStreak :: "Trade list \<Rightarrow> nat" where
  "spec_lossStreak cs =
     length (takeWhile (\<lambda>t. pnl_or_0 t < 0) (take 5 (rev (sort_key closeTime cs))))"

text \<open>
  What the source counts instead: the losses at the end of the list as supplied,
  within its last five entries.
\<close>

definition trailingLossStreak :: "Trade list \<Rightarrow> nat" where
  "trailingLossStreak cs = length (takeWhile (\<lambda>t. pnl_or_0 t < 0) (take 5 (rev cs)))"

text \<open>
  A revenge pair: the earlier trade is a loss, and the later one is opened less than
  5 minutes after the earlier one is closed.
\<close>

definition revengePair :: "Trade \<Rightarrow> Trade \<Rightarrow> bool" where
  "revengePair earlier later =
     (case (pnl earlier, closedAt earlier) of
        (Some p, Some c) \<Rightarrow> p < 0 \<and> openedAt later - c < 5 * 60 * 1000
      | _ \<Rightarrow> False)"

section \<open>Example inputs\<close>

text \<open>
  A closed trade on one asset with no fees, its \<open>pnl\<close> and \<open>pnlPercent\<close> filled by
  \<open>calculatePnL\<close> as the trade routes do, and midnight in the UTC time zone.
\<close>

definition closedTrade :: "Position \<Rightarrow> real \<Rightarrow> real \<Rightarrow> real \<Rightarrow> int \<Rightarrow> int \<Rightarrow> Trade" where
  "closedTrade pos e x q t_open t_close =
     (let r = calculatePnL pos e x q None
      in \<lparr>asset = ''BBCA'', position = pos, entryPrice = e, exitPrice = Some x,
          quantity = q, fees = 0, openedAt = t_open, closedAt = Some t_close,
          pnl = Some (PnLResult.pnl r), pnlPercent = Some (PnLResult.pnlPercent r),
          isOpen = False\<rparr>)"

definition utcMidnight :: "int \<Rightarrow> int" where
  "utcMidnight t = t - t mod 86400000"

lemmas engine_defs =
  calculateMetrics_def closedTrade_def calculatePnL_def closedTrades_metrics_def Let_def
  winningTrades_of_def losingTrades_of_def pnl_or_0_def round2_def Math_round_def
  winRate_full_def avgWin_full_def avgLoss_full_def profitFactor_full_def grossLoss_def
  grossProfit_def round2_n_def expectancy_full_def lossRate_def calculateMaxDrawdown_def
  js_div_def closeTime_def detectBehaviorWarnings_def utcMidnight_def todayTrades_of_def
  overtradingWarnings_def closedTrades_behavior_def riskWarnings_def riskPercent_of_def
  consecutiveLossWarnings_def consecutiveLosses_of_def recentClosed_of_def
  revengeLoop.simps

section \<open>Loop lemmas\<close>

lemma drawdownLoop_mono: "md \<le> drawdownLoop ts peak md cum"
proof (induction ts arbitrary: peak md cum)
  case Nil
  show ?case by simp
next
  case (Cons t ts)
  let ?c = "cum + pnl_or_0 t"
  let ?p = "if ?c > peak then ?c else peak"
  let ?m = "if ?p - ?c > md then ?p - ?c else md"
  have "md \<le> ?m" by simp
  also have "?m \<le> drawdownLoop ts ?p ?m ?c" by (rule Cons.IH)
  finally show ?case by (simp add: Let_def)
qed

lemma drawdownLoop_winners:
  "\<forall>t\<in>set ts. 0 \<le> pnl_or_0 t \<Longrightarrow> peak \<le> cum \<Longrightarrow> 0 \<le> md
   \<Longrightarrow> drawdownLoop ts peak md cum = md"
proof (induction ts arbitrary: peak md cum)
  case Nil
  show ?case by simp
next
  case (Cons t ts)
  let ?c = "cum + pnl_or_0 t"
  from Cons.prems have win: "0 \<le> pnl_or_0 t" and rest: "\<forall>u\<in>set ts. 0 \<le> pnl_or_0 u"
    by simp_all
  from win Cons.prems(2) have pc: "peak \<le> ?c" by simp
  have step: "drawdownLoop (t # ts) peak md cum = drawdownLoop ts ?c md ?c"
    using pc Cons.prems(3) by (auto simp: Let_def)
  show ?case unfolding step using rest Cons.prems(3) by (intro Cons.IH) simp_all
qed

lemma drawdownLoop_loser:
  "\<exists>t\<in>set ts. pnl_or_0 t < 0 \<Longrightarrow> cum \<le> peak \<Longrightarrow> 0 \<le> md
   \<Longrightarrow> 0 < drawdownLoop ts peak md cum"
proof (induction ts arbitrary: peak md cum)
  case Nil
  then show ?case by simp
next
  case (Cons t ts)
  let ?c = "cum + pnl_or_0 t"
  let ?p = "if ?c > peak then ?c else peak"
  let ?m = "if ?p - ?c > md then ?p - ?c else md"
  have unfold: "drawdownLoop (t # ts) peak md cum = drawdownLoop ts ?p ?m ?c"
    by (simp add: Let_def)
  have inv: "?c \<le> ?p" "0 \<le> ?m" using Cons.prems(3) by simp_all
  show ?case
  proof (cases "pnl_or_0 t < 0")
    case True
    with Cons.prems(2) have "0 < ?p - ?c" by simp
    then have "0 < ?m" using Cons.prems(3) by simp
    also have "?m \<le> drawdownLoop ts ?p ?m ?c" by (rule drawdownLoop_mono)
    finally show ?thesis unfolding unfold .
  next
    case False
    with Cons.prems(1) have "\<exists>u\<in>set ts. pnl_or_0 u < 0" by auto
    from Cons.IH [OF this inv] show ?thesis unfolding unfold .
  qed
qed

lemma foldl_plus_sum_list: "foldl (\<lambda>sum t. sum + f t) a xs = a + sum_list (map f xs)"
  for a :: real
  by (induction xs arbitrary: a) (simp_all add: algebra_simps)

lemma lossLoop_takeWhile:
  "k \<le> length rc \<Longrightarrow>
   lossLoop rc k n = n + length (takeWhile (\<lambda>t. pnl_or_0 t < 0) (rev (take k rc)))"
proof (induction k arbitrary: n)
  case 0
  show ?case by simp
next
  case (Suc k)
  then have k: "k < length rc" by simp
  then have tk: "take (Suc k) rc = take k rc @ [rc ! k]"
    by (simp add: take_Suc_conv_app_nth)
  show ?case using Suc.IH [of "n + 1"] k by (simp add: tk)
qed

lemma revengeLoop_warning:
  "w \<in> set (revengeLoop cs i) \<Longrightarrow> severity w = HIGH \<and> type w = REVENGE_TRADING"
proof (induction cs i rule: revengeLoop.induct)
  case (1 closedTrades i)
  show ?case
  proof (cases "i < length closedTrades")
    case False
    with "1.prems" show ?thesis by (simp add: revengeLoop.simps [of closedTrades i])
  next
    case True
    show ?thesis
      using "1.prems" "1.IH" True
      by (subst (asm) revengeLoop.simps) (auto simp: Let_def split: if_splits option.splits)
  qed
qed

lemma revengeLoop_step:
  "i < length cs \<Longrightarrow>
   revengeLoop cs i =
     (if revengePair (cs ! (i - 1)) (cs ! i)
      then [\<lparr>type = REVENGE_TRADING, severity = HIGH, date = openedAt (cs ! i)\<rparr>]
      else revengeLoop cs (i + 1))"
  by (subst revengeLoop.simps) (auto simp: revengePair_def Let_def split: option.splits)

lemma revengeLoop_done: "\<not> i < length cs \<Longrightarrow> revengeLoop cs i = []"
  by (simp add: revengeLoop.simps [of cs i])

lemma revengeLoop_length: "length (revengeLoop cs i) \<le> 1"
proof (induction "length cs - i" arbitrary: i)
  case 0
  then show ?case by (simp add: revengeLoop_done)
next
  case (Suc n)
  then have lt: "i < length cs" and n: "n = length cs - (i + 1)" by simp_all
  from Suc.hyps(1) [OF n] show ?case by (simp add: revengeLoop_step [OF lt])
qed

lemma revengeLoop_nonempty_iff:
  "revengeLoop cs i \<noteq> [] \<longleftrightarrow>
     (\<exists>j. i \<le> j \<and> j < length cs \<and> revengePair (cs ! (j - 1)) (cs ! j))"
proof (induction "length cs - i" arbitrary: i)
  case 0
  then show ?case by (simp add: revengeLoop_done)
next
  case (Suc n)
  then have lt: "i < length cs" and n: "n = length cs - (i + 1)" by simp_all
  note ih = Suc.hyps(1) [OF n]
  show ?case
  proof (cases "revengePair (cs ! (i - 1)) (cs ! i)")
    case True
    with lt show ?thesis by (auto simp: revengeLoop_step)
  next
    case False
    have "(\<exists>j. i \<le> j \<and> j < length cs \<and> revengePair (cs ! (j - 1)) (cs ! j)) \<longleftrightarrow>
          (\<exists>j. i + 1 \<le> j \<and> j < length cs \<and> revengePair (cs ! (j - 1)) (cs ! j))"
    proof
      assume "\<exists>j. i \<le> j \<and> j < length cs \<and> revengePair (cs ! (j - 1)) (cs ! j)"
      then obtain j where j: "i \<le> j" "j < length cs" "revengePair (cs ! (j - 1)) (cs ! j)"
        by blast
      with False have "j \<noteq> i" by auto
      with j(1) have "i + 1 \<le> j" by simp
      with j show "\<exists>j. i + 1 \<le> j \<and> j < length cs \<and> revengePair (cs ! (j - 1)) (cs ! j)"
        by blast
    next
      assume "\<exists>j. i + 1 \<le> j \<and> j < length cs \<and> revengePair (cs ! (j - 1)) (cs ! j)"
      then obtain j where j: "i + 1 \<le> j" "j < length cs" "revengePair (cs ! (j - 1)) (cs ! j)"
        by blast
      then have "i \<le> j" by simp
      with j show "\<exists>j. i \<le> j \<and> j < length cs \<and> revengePair (cs ! (j - 1)) (cs ! j)"
        by blast
    qed
    with ih False lt show ?thesis by (simp add: revengeLoop_step)
  qed
qed

section \<open>Properties of calculatePnL\<close>

text \<open>
  Claim C1. For both positions and all finite entry price, exit price, quantity and
  fees, \<open>calculatePnL\<close> returns \<open>pnl = (exitPrice - entryPrice) * quantity - fees\<close>
  for BELI (long) and \<open>pnl = (entryPrice - exitPrice) * quantity - fees\<close> for JUAL
  (short); \<open>pnlPercent\<close> is \<open>pnl / (entryPrice * quantity) * 100\<close> when
  \<open>entryPrice * quantity > 0\<close> and \<open>0\<close> otherwise.
\<close>

theorem calculatePnL_formula:
  "PnLResult.pnl (calculatePnL BELI e x q (Some f)) = (x - e) * q - f
   \<and> PnLResult.pnl (calculatePnL JUAL e x q (Some f)) = (e - x) * q - f
   \<and> PnLResult.pnlPercent (calculatePnL p e x q (Some f)) =
       (if e * q > 0 then PnLResult.pnl (calculatePnL p e x q (Some f)) / (e * q) * 100 else 0)"
  by (simp add: calculatePnL_def Let_def)

text \<open>
  Claim C8. With fees 0 (given, or omitted and defaulted), the long pnl is the exact
  negation of the short pnl on the same entry price, exit price and quantity.
\<close>

theorem calculatePnL_long_short_symmetry:
  "PnLResult.pnl (calculatePnL BELI e x q (Some 0)) = - PnLResult.pnl (calculatePnL JUAL e x q (Some 0))
   \<and> PnLResult.pnl (calculatePnL BELI e x q None) = - PnLResult.pnl (calculatePnL JUAL e x q None)"
  by (simp add: calculatePnL_def Let_def algebra_simps)

section \<open>Properties of calculateMetrics\<close>

lemma grossProfit_spec: "grossProfit cs = spec_grossProfit cs"
  by (simp add: grossProfit_def spec_grossProfit_def winningTrades_of_def foldl_plus_sum_list)

lemma grossLoss_spec: "grossLoss cs = spec_grossLoss cs"
  by (simp add: grossLoss_def spec_grossLoss_def losingTrades_of_def foldl_plus_sum_list)

lemma profitFactor_full_spec: "profitFactor_full cs = spec_profitFactor cs"
  by (simp add: profitFactor_full_def spec_profitFactor_def grossProfit_spec grossLoss_spec)

text \<open>
  Claim C2. For every trade list whose closed subset is non-empty, the profit factor
  computed by \<open>calculateMetrics\<close> is \<open>grossProfit / grossLoss\<close> if \<open>grossLoss > 0\<close>,
  else plus infinity if \<open>grossProfit > 0\<close>, else 0, with gross profit the sum of pnl
  over the trades with \<open>pnl > 0\<close> and gross loss the absolute value of the sum of pnl
  over the trades with \<open>pnl < 0\<close>. This is the local constant \<open>profitFactor\<close>; the
  field returned is that value after \<^verbatim>\<open>Math.round(v * 100) / 100\<close>.
\<close>

theorem profitFactor_formula:
  assumes "closedTrades_metrics trades \<noteq> []"
  shows "profitFactor_full (closedTrades_metrics trades) = spec_profitFactor (closedTrades_metrics trades)
     \<and> profitFactor (calculateMetrics trades) = round2_n (spec_profitFactor (closedTrades_metrics trades))"
  using assms by (simp add: calculateMetrics_def Let_def profitFactor_full_spec)

text \<open>
  The example of the specification: gross profit 300 against gross loss 100 gives 3.
\<close>

theorem profitFactor_formula_witness:
  "closedTrades_metrics [closedTrade BELI 100 110 10 0 1000, closedTrade BELI 100 110 10 2000 3000,
      closedTrade JUAL 100 90 10 4000 5000, closedTrade BELI 100 90 10 6000 7000] \<noteq> []
   \<and> spec_profitFactor (closedTrades_metrics [closedTrade BELI 100 110 10 0 1000, closedTrade BELI 100 110 10 2000 3000,
      closedTrade JUAL 100 90 10 4000 5000, closedTrade BELI 100 90 10 6000 7000]) = Fin 3
   \<and> profitFactor (calculateMetrics [closedTrade BELI 100 110 10 0 1000, closedTrade BELI 100 110 10 2000 3000,
      closedTrade JUAL 100 90 10 4000 5000, closedTrade BELI 100 90 10 6000 7000]) = Fin 3"
proof -
  let ?ex = "[closedTrade BELI 100 110 10 0 1000, closedTrade BELI 100 110 10 2000 3000,
      closedTrade JUAL 100 90 10 4000 5000, closedTrade BELI 100 90 10 6000 7000]"
  have ne: "closedTrades_metrics ?ex \<noteq> []"
    by (simp add: closedTrades_metrics_def closedTrade_def Let_def)
  have sp: "spec_profitFactor (closedTrades_metrics ?ex) = Fin 3"
    by (simp add: spec_profitFactor_def spec_grossProfit_def spec_grossLoss_def
        closedTrades_metrics_def closedTrade_def calculatePnL_def pnl_or_0_def Let_def)
  have r: "round2_n (Fin 3) = Fin 3"
    by (simp add: round2_n_def round2_def Math_round_def js_div_def)
  from profitFactor_formula [OF ne] have
    "profitFactor (calculateMetrics ?ex) = round2_n (spec_profitFactor (closedTrades_metrics ?ex))"
    by (rule conjunct2)
  with ne sp r show ?thesis by simp
qed

lemma round2_nonneg: "0 \<le> v \<Longrightarrow> 0 \<le> round2 v"
  by (simp add: round2_def Math_round_def)

lemma round2_zero: "round2 0 = 0"
  by (simp add: round2_def Math_round_def)

lemma calculateMaxDrawdown_nonneg: "0 \<le> calculateMaxDrawdown cs"
  using drawdownLoop_mono [of 0 "sort_key closeTime cs" 0 0]
  by (simp add: calculateMaxDrawdown_def Let_def)

lemma calculateMaxDrawdown_zero_iff:
  "calculateMaxDrawdown cs = 0 \<longleftrightarrow> (\<forall>t\<in>set cs. 0 \<le> pnl_or_0 t)"
proof (cases "\<forall>t\<in>set cs. 0 \<le> pnl_or_0 t")
  case True
  then have "\<forall>t\<in>set (sort_key closeTime cs). 0 \<le> pnl_or_0 t" by simp
  from drawdownLoop_winners [OF this, of 0 0 0] True show ?thesis
    by (simp add: calculateMaxDrawdown_def Let_def)
next
  case False
  then have ex: "\<exists>t\<in>set (sort_key closeTime cs). pnl_or_0 t < 0" by (simp add: not_le)
  then have "cs \<noteq> []" by auto
  with drawdownLoop_loser [OF ex, of 0 0 0] False show ?thesis
    by (simp add: calculateMaxDrawdown_def Let_def)
qed

lemma maxDrawdown_field:
  "maxDrawdown (calculateMetrics trades) = round2 (calculateMaxDrawdown (closedTrades_metrics trades))"
  by (simp add: calculateMetrics_def Let_def round2_zero calculateMaxDrawdown_def)

text \<open>
  Claim C3, amended. The maximum drawdown is never negative, before and after the
  rounding of the return statement. Before the rounding it is 0 exactly when no
  trade of the list has a negative pnl, that is when the cumulative pnl (not the pnl)
  never decreases in close-time order; the field returned is then 0 as well.
\<close>

theorem maxDrawdown_nonneg_zero_without_loss:
  "0 \<le> calculateMaxDrawdown closedTrades
   \<and> 0 \<le> maxDrawdown (calculateMetrics trades)
   \<and> (calculateMaxDrawdown closedTrades = 0 \<longleftrightarrow> (\<forall>t\<in>set closedTrades. 0 \<le> pnl_or_0 t))
   \<and> ((\<forall>t\<in>set (closedTrades_metrics trades). 0 \<le> pnl_or_0 t)
        \<longrightarrow> maxDrawdown (calculateMetrics trades) = 0)"
proof (intro conjI impI)
  show "0 \<le> calculateMaxDrawdown closedTrades" by (rule calculateMaxDrawdown_nonneg)
  show "0 \<le> maxDrawdown (calculateMetrics trades)"
    by (simp add: maxDrawdown_field round2_nonneg calculateMaxDrawdown_nonneg)
  show "calculateMaxDrawdown closedTrades = 0 \<longleftrightarrow> (\<forall>t\<in>set closedTrades. 0 \<le> pnl_or_0 t)"
    by (rule calculateMaxDrawdown_zero_iff)
next
  assume "\<forall>t\<in>set (closedTrades_metrics trades). 0 \<le> pnl_or_0 t"
  then have "calculateMaxDrawdown (closedTrades_metrics trades) = 0"
    by (simp add: calculateMaxDrawdown_zero_iff)
  then show "maxDrawdown (calculateMetrics trades) = 0"
    by (simp add: maxDrawdown_field round2_zero)
qed

text \<open>Two winning trades: no drawdown.\<close>

theorem maxDrawdown_nonneg_zero_without_loss_witness:
  "0 \<le> pnl_or_0 (closedTrade BELI 100 110 10 0 1000)
   \<and> 0 \<le> pnl_or_0 (closedTrade JUAL 100 95 10 2000 3000)
   \<and> calculateMaxDrawdown [closedTrade BELI 100 110 10 0 1000, closedTrade JUAL 100 95 10 2000 3000] = 0
   \<and> maxDrawdown (calculateMetrics [closedTrade BELI 100 110 10 0 1000, closedTrade JUAL 100 95 10 2000 3000]) = 0"
proof -
  let ?ex = "[closedTrade BELI 100 110 10 0 1000, closedTrade JUAL 100 95 10 2000 3000]"
  have w1: "0 \<le> pnl_or_0 (closedTrade BELI 100 110 10 0 1000)"
    and w2: "0 \<le> pnl_or_0 (closedTrade JUAL 100 95 10 2000 3000)"
    by (simp_all add: pnl_or_0_def closedTrade_def calculatePnL_def Let_def)
  have cl: "closedTrades_metrics ?ex = ?ex"
    by (simp add: closedTrades_metrics_def closedTrade_def Let_def)
  from w1 w2 have all: "\<forall>t\<in>set ?ex. 0 \<le> pnl_or_0 t" by simp
  from maxDrawdown_nonneg_zero_without_loss [of ?ex ?ex] all cl
  have "calculateMaxDrawdown ?ex = 0" and "maxDrawdown (calculateMetrics ?ex) = 0"
    by simp_all
  with w1 w2 show ?thesis by simp
qed

text \<open>
  Claim C3 as stated fails: two losses of 5 and then 3 have pnl values \<open>-5, -3\<close>,
  non-decreasing in close-time order, and the cumulative pnl falls to \<open>-8\<close> under
  the initial peak 0, a drawdown of 8.
\<close>

theorem maxDrawdown_nondecreasing_pnl_counterexample:
  "sorted (map pnl_or_0 (sort_key closeTime
       [closedTrade BELI 100 95 1 0 1000, closedTrade BELI 100 97 1 2000 3000]))
   \<and> calculateMaxDrawdown [closedTrade BELI 100 95 1 0 1000, closedTrade BELI 100 97 1 2000 3000] = 8
   \<and> maxDrawdown (calculateMetrics
       [closedTrade BELI 100 95 1 0 1000, closedTrade BELI 100 97 1 2000 3000]) = 8"
  by (simp add: engine_defs)

section \<open>Rounding of the metrics\<close>

lemma round2_n_Fin: "round2_n (Fin x) = Fin (round2 x)"
  by (simp add: round2_n_def round2_def js_div_def)

lemma metrics_fields:
  "winRate (calculateMetrics trades) = round2 (winRate_full (closedTrades_metrics trades))"
  "avgWin (calculateMetrics trades) = round2 (avgWin_full (closedTrades_metrics trades))"
  "avgLoss (calculateMetrics trades) = round2 (avgLoss_full (closedTrades_metrics trades))"
  "profitFactor (calculateMetrics trades) = round2_n (profitFactor_full (closedTrades_metrics trades))"
  "expectancy (calculateMetrics trades) = round2 (expectancy_full (closedTrades_metrics trades))"
  by (simp_all add: calculateMetrics_def Let_def round2_zero winRate_full_def avgWin_full_def
      avgLoss_full_def profitFactor_full_def grossProfit_def grossLoss_def winningTrades_of_def
      losingTrades_of_def expectancy_full_def lossRate_def round2_n_Fin)

lemma round2_nearest: "nearest_hundredth (round2 v) v"
proof -
  define k :: real where "k = of_int \<lfloor>v * 100 + 1 / 2\<rfloor>"
  have r: "round2 v = k / 100" by (simp add: round2_def Math_round_def k_def)
  have whole: "of_int \<lfloor>k\<rfloor> = k" by (simp add: k_def)
  have lo: "k \<le> v * 100 + 1 / 2" unfolding k_def by (rule of_int_floor_le)
  have hi: "v * 100 + 1 / 2 < k + 1" unfolding k_def by linarith
  from lo hi have "\<bar>k / 100 - v\<bar> \<le> 1 / 200" by linarith
  with whole show ?thesis by (simp add: nearest_hundredth_def r)
qed

lemma round2_n_nearest: "nearest_hundredth_n (round2_n n) n"
  by (cases n) (simp_all add: round2_n_Fin round2_nearest, simp_all add: round2_n_def)

text \<open>
  At the tie \<open>23/40 = 0.575\<close> both \<open>0.57\<close>, which the source returns on doubles, and
  \<open>0.58\<close>, which \<open>round2\<close> gives, are nearest hundredths.
\<close>

lemma nearest_hundredth_tie:
  "nearest_hundredth (57 / 100) (23 / 40) \<and> nearest_hundredth (58 / 100) (23 / 40)
   \<and> round2 (23 / 40) = 58 / 100"
  by (simp add: nearest_hundredth_def round2_def Math_round_def)

text \<open>
  Claim C5, amended. Each percentage and currency field of the metrics returned by
  \<open>calculateMetrics\<close> is the full-precision local value rounded to 2 decimal places
  at the return statement only: a whole number of hundredths, at most half a
  hundredth from the full-precision value, an infinite profit factor staying
  infinite. Which neighbour a tie goes to is left open: it is not always the one
  away from zero.
\<close>

theorem metrics_rounded_to_nearest_hundredth:
  "(let cs = closedTrades_metrics trades; m = calculateMetrics trades
    in nearest_hundredth (winRate m) (winRate_full cs)
     \<and> nearest_hundredth (avgWin m) (avgWin_full cs)
     \<and> nearest_hundredth (avgLoss m) (avgLoss_full cs)
     \<and> nearest_hundredth_n (profitFactor m) (profitFactor_full cs)
     \<and> nearest_hundredth (maxDrawdown m) (calculateMaxDrawdown cs)
     \<and> nearest_hundredth (expectancy m) (expectancy_full cs))"
  by (simp add: Let_def metrics_fields maxDrawdown_field round2_nearest round2_n_nearest)

text \<open>
  Claim C5 as stated fails on a negative tie: one closed trade with pnl \<open>-0.125\<close>
  has expectancy \<open>-0.125\<close>, which rounds half away from zero to \<open>-0.13\<close>, and
  \<open>calculateMetrics\<close> returns \<open>-0.12\<close>.
\<close>

theorem expectancy_half_away_counterexample:
  "expectancy_full (closedTrades_metrics [closedTrade BELI 100 99 (1 / 8) 0 1000]) = - (1 / 8)
   \<and> round_half_away2 (- (1 / 8)) = - (13 / 100)
   \<and> expectancy (calculateMetrics [closedTrade BELI 100 99 (1 / 8) 0 1000]) = - (12 / 100)
   \<and> expectancy (calculateMetrics [closedTrade BELI 100 99 (1 / 8) 0 1000])
       \<noteq> round_half_away2
           (expectancy_full (closedTrades_metrics [closedTrade BELI 100 99 (1 / 8) 0 1000]))"
  by (simp add: engine_defs round_half_away2_def)

section \<open>Properties of detectBehaviorWarnings\<close>

text \<open>
  The revenge rule on the list as supplied: at most one warning, and one exactly when
  two neighbours of the closed trades, in the order of the list, are a revenge pair.
\<close>

lemma revenge_rule_in_supplied_order:
  "(let cs = closedTrades_behavior trades;
        ws = filter (\<lambda>w. type w = REVENGE_TRADING)
               (detectBehaviorWarnings startOfDay now trades accountBalance)
    in ws = revengeLoop cs 1
     \<and> length ws \<le> 1
     \<and> (ws \<noteq> [] \<longleftrightarrow> (\<exists>j. 1 \<le> j \<and> j < length cs \<and> revengePair (cs ! (j - 1)) (cs ! j))))"
proof -
  let ?cs = "closedTrades_behavior trades"
  let ?P = "\<lambda>w. type w = REVENGE_TRADING"
  have o: "filter ?P (overtradingWarnings today tt) = []" for today tt
    by (simp add: overtradingWarnings_def)
  have r: "filter ?P (riskWarnings tt ab) = []" for tt ab
    by (auto simp: filter_empty_conv riskWarnings_def Let_def split: if_splits)
  have c: "filter ?P (consecutiveLossWarnings today cs) = []" for today cs
    by (simp add: consecutiveLossWarnings_def Let_def)
  have v: "filter ?P (revengeLoop ?cs i) = revengeLoop ?cs i" for i
    by (rule filter_True) (simp add: revengeLoop_warning)
  have "filter ?P (detectBehaviorWarnings startOfDay now trades accountBalance) = revengeLoop ?cs 1"
    by (simp add: detectBehaviorWarnings_def Let_def o r c v)
  then show ?thesis
    using revengeLoop_length [of ?cs 1] revengeLoop_nonempty_iff [of ?cs 1]
    by (simp add: Let_def)
qed

lemma consecutiveLosses_trailing: "consecutiveLosses_of cs = trailingLossStreak cs"
proof -
  have "rev (drop (length cs - 5) cs) = take 5 (rev cs)"
  proof (cases "5 \<le> length cs")
    case True
    then have "length cs - (length cs - 5) = 5" by simp
    then show ?thesis by (simp add: rev_drop)
  next
    case False
    then show ?thesis by simp
  qed
  then show ?thesis
    using lossLoop_takeWhile [of "length (recentClosed_of cs)" "recentClosed_of cs" 0]
    by (simp add: consecutiveLosses_of_def trailingLossStreak_def recentClosed_of_def Let_def)
qed

lemma filter_type_overtrading:
  "filter (\<lambda>w. type w = CONSECUTIVE_LOSS) (overtradingWarnings today tt) = []"
  by (simp add: overtradingWarnings_def)

lemma filter_type_revenge:
  "filter (\<lambda>w. type w = CONSECUTIVE_LOSS) (revengeLoop cs i) = []"
  by (auto simp: filter_empty_conv dest: revengeLoop_warning)

lemma filter_type_risk:
  "filter (\<lambda>w. type w = CONSECUTIVE_LOSS) (riskWarnings tt ab) = []"
  by (auto simp: filter_empty_conv riskWarnings_def Let_def split: if_splits)

lemma filter_type_consecutive:
  "filter (\<lambda>w. type w = CONSECUTIVE_LOSS) (consecutiveLossWarnings today cs) =
     consecutiveLossWarnings today cs"
  by (simp add: consecutiveLossWarnings_def Let_def)

text \<open>
  The consecutive-loss rule on the list as supplied: one warning exactly when the
  closed trades, in the order of the list, end in at least 3 losses within the last
  five entries; \<open>HIGH\<close> when all five are losses.
\<close>

lemma consecutive_loss_rule_in_supplied_order:
  "filter (\<lambda>w. type w = CONSECUTIVE_LOSS)
       (detectBehaviorWarnings startOfDay now trades accountBalance) =
     (let streak = trailingLossStreak (closedTrades_behavior trades)
      in if streak \<ge> 3
         then [\<lparr>type = CONSECUTIVE_LOSS,
                severity = (if streak \<ge> 5 then HIGH else MEDIUM),
                date = startOfDay now\<rparr>]
         else [])"
  by (simp add: detectBehaviorWarnings_def Let_def filter_type_overtrading filter_type_revenge
      filter_type_risk filter_type_consecutive)
     (simp add: consecutiveLossWarnings_def consecutiveLosses_trailing Let_def)

text \<open>
  On closed trades supplied in ascending close-time order the count of the source is
  the streak of the 5 most recently closed trades.
\<close>

lemma trailingLossStreak_sorted:
  "sorted (map closeTime cs) \<Longrightarrow> trailingLossStreak cs = spec_lossStreak cs"
  by (simp add: trailingLossStreak_def spec_lossStreak_def sort_key_id_if_sorted)

text \<open>
  Claim C7 says that the consecutive-loss rule counts the losing streak of the 5
  most recently closed trades, from the most recent one. The source takes the last
  five entries of the list as supplied and never sorts. Supplied latest first, as
  the behaviour route does, three losses followed by three wins, each closed before
  the next is opened, have no losing streak at the recent end; the source counts the
  three oldest trades and emits a \<open>CONSECUTIVE_LOSS\<close> warning of severity \<open>MEDIUM\<close>.
  On the same trades in ascending close-time order it emits none.
\<close>

theorem consecutive_loss_window_in_supplied_order:
  "spec_lossStreak (closedTrades_behavior
      [closedTrade BELI 100 110 1 2000000 2001000, closedTrade BELI 100 110 1 1600000 1601000,
       closedTrade BELI 100 110 1 1200000 1201000, closedTrade BELI 100 90 1 800000 801000,
       closedTrade BELI 100 90 1 400000 401000, closedTrade BELI 100 90 1 0 1000]) = 0
   \<and> filter (\<lambda>w. type w = CONSECUTIVE_LOSS) (detectBehaviorWarnings utcMidnight 864000000
      [closedTrade BELI 100 110 1 2000000 2001000, closedTrade BELI 100 110 1 1600000 1601000,
       closedTrade BELI 100 110 1 1200000 1201000, closedTrade BELI 100 90 1 800000 801000,
       closedTrade BELI 100 90 1 400000 401000, closedTrade BELI 100 90 1 0 1000] None)
     = [\<lparr>type = CONSECUTIVE_LOSS, severity = MEDIUM, date = 864000000\<rparr>]
   \<and> filter (\<lambda>w. type w = CONSECUTIVE_LOSS) (detectBehaviorWarnings utcMidnight 864000000
      (sort_key closeTime
        [closedTrade BELI 100 110 1 2000000 2001000, closedTrade BELI 100 110 1 1600000 1601000,
         closedTrade BELI 100 110 1 1200000 1201000, closedTrade BELI 100 90 1 800000 801000,
         closedTrade BELI 100 90 1 400000 401000, closedTrade BELI 100 90 1 0 1000]) None)
     = []"
  by (simp add: engine_defs spec_lossStreak_def)

lemma overtrading_severity:
  "w \<in> set (overtradingWarnings today tt) \<Longrightarrow> severity w = MEDIUM \<or> severity w = HIGH"
  by (auto simp: overtradingWarnings_def split: if_splits)

lemma risk_severity:
  "w \<in> set (riskWarnings tt ab) \<Longrightarrow> severity w = MEDIUM \<or> severity w = HIGH"
  by (auto simp: riskWarnings_def Let_def split: if_splits)

lemma consecutive_severity:
  "w \<in> set (consecutiveLossWarnings today cs) \<Longrightarrow> severity w = MEDIUM \<or> severity w = HIGH"
  by (auto simp: consecutiveLossWarnings_def Let_def split: if_splits)

text \<open>
  Claim C9. For every trade list and every account balance, every warning returned
  by \<open>detectBehaviorWarnings\<close> has severity \<open>MEDIUM\<close> or \<open>HIGH\<close>: the severity
  \<open>LOW\<close> of the type \<open>BehaviorWarning\<close> is never emitted.
\<close>

theorem severity_medium_or_high:
  "\<forall>w\<in>set (detectBehaviorWarnings startOfDay now trades accountBalance).
     severity w = MEDIUM \<or> severity w = HIGH"
proof
  fix w
  assume "w \<in> set (detectBehaviorWarnings startOfDay now trades accountBalance)"
  then consider
      "w \<in> set (overtradingWarnings (startOfDay now) (todayTrades_of startOfDay (startOfDay now) trades))"
    | "w \<in> set (revengeLoop (closedTrades_behavior trades) 1)"
    | "w \<in> set (riskWarnings (todayTrades_of startOfDay (startOfDay now) trades)
                  (case accountBalance of None \<Rightarrow> 10000 | Some b \<Rightarrow> b))"
    | "w \<in> set (consecutiveLossWarnings (startOfDay now) (closedTrades_behavior trades))"
    by (auto simp: detectBehaviorWarnings_def Let_def)
  then show "severity w = MEDIUM \<or> severity w = HIGH"
  proof cases
    case 1 then show ?thesis by (rule overtrading_severity)
  next
    case 2 then show ?thesis by (simp add: revengeLoop_warning)
  next
    case 3 then show ?thesis by (rule risk_severity)
  next
    case 4 then show ?thesis by (rule consecutive_severity)
  qed
qed

text \<open>A trade opened today that risks 3 percent of the default balance: \<open>MEDIUM\<close>.\<close>

theorem severity_medium_or_high_witness:
  "\<lparr>type = HIGH_RISK, severity = MEDIUM, date = 86400001\<rparr>
     \<in> set (detectBehaviorWarnings utcMidnight 86400000
              [closedTrade BELI 300 310 1 86400001 86400002] None)
   \<and> (severity \<lparr>type = HIGH_RISK, severity = MEDIUM, date = 86400001\<rparr> = MEDIUM
      \<or> severity \<lparr>type = HIGH_RISK, severity = MEDIUM, date = 86400001\<rparr> = HIGH)"
proof -
  let ?w = "\<lparr>type = HIGH_RISK, severity = MEDIUM, date = 86400001\<rparr>"
  let ?out = "detectBehaviorWarnings utcMidnight 86400000
                [closedTrade BELI 300 310 1 86400001 86400002] None"
  have mem: "?w \<in> set ?out" by (simp add: engine_defs)
  from severity_medium_or_high [of utcMidnight 86400000
      "[closedTrade BELI 300 310 1 86400001 86400002]" None] mem
  have "severity ?w = MEDIUM \<or> severity ?w = HIGH" by (rule bspec)
  with mem show ?thesis by (rule conjI)
qed

text \<open>
  Claim C4 says that every division of the engine guards its denominator, the
  risk-percent division \<open>riskAmount / accountBalance\<close> in particular. The source
  divides without a guard: with an account balance of 0 and one trade opened today,
  the quotient is \<^verbatim>\<open>Infinity\<close> and a \<open>HIGH_RISK\<close> warning of severity \<open>HIGH\<close> is
  emitted, where the guarded divisions of the engine fall back to 0.
\<close>

theorem risk_division_by_zero_balance:
  "riskPercent_of (closedTrade BELI 100 99 1 86400001 86400002) 0 = PosInf
   \<and> detectBehaviorWarnings utcMidnight 86400000
        [closedTrade BELI 100 99 1 86400001 86400002] (Some 0)
      = [\<lparr>type = HIGH_RISK, severity = HIGH, date = 86400001\<rparr>]"
  by (simp add: engine_defs)

text \<open>
  Claim C6 says that the revenge rule scans the closed trades in ascending
  close-time order. The source scans them in the order supplied. Supplied latest
  first, as the behaviour route does, a loss closed at minute 1 and a trade opened
  at minute 2 give no warning; the same two trades in ascending close-time order give
  the \<open>REVENGE_TRADING\<close> warning the claim describes.
\<close>

theorem revenge_scan_in_supplied_order:
  "closeTime (closedTrade BELI 100 90 1 0 60000) < closeTime (closedTrade BELI 100 105 1 120000 180000)
   \<and> pnl_or_0 (closedTrade BELI 100 90 1 0 60000) < 0
   \<and> openedAt (closedTrade BELI 100 105 1 120000 180000)
        - closeTime (closedTrade BELI 100 90 1 0 60000) = 60000
   \<and> detectBehaviorWarnings utcMidnight 864000000
        [closedTrade BELI 100 105 1 120000 180000, closedTrade BELI 100 90 1 0 60000] None = []
   \<and> detectBehaviorWarnings utcMidnight 864000000
        (sort_key closeTime
           [closedTrade BELI 100 105 1 120000 180000, closedTrade BELI 100 90 1 0 60000]) None
      = [\<lparr>type = REVENGE_TRADING, severity = HIGH, date = 120000\<rparr>]"
  by (simp add: engine_defs)

text \<open>
  Claim C10. The revenge rule has no lower bound on the gap: there is a trade list
  in which the trade after a losing trade was opened before that loss was closed (a
  negative gap, here of 30 days and an hour) and \<open>detectBehaviorWarnings\<close> emits
  the \<open>REVENGE_TRADING\<close> warning, since only \<open>gap < 5 minutes\<close> is tested.
\<close>

theorem revenge_negative_gap:
  "closedTrades_behavior
       [closedTrade BELI 100 90 1 2592000000 2595600000, closedTrade BELI 100 105 1 0 60000]
     = [closedTrade BELI 100 90 1 2592000000 2595600000, closedTrade BELI 100 105 1 0 60000]
   \<and> pnl_or_0 (closedTrade BELI 100 90 1 2592000000 2595600000) < 0
   \<and> openedAt (closedTrade BELI 100 105 1 0 60000)
        - closeTime (closedTrade BELI 100 90 1 2592000000 2595600000) = - 2595600000
   \<and> detectBehaviorWarnings utcMidnight 8640000000
        [closedTrade BELI 100 90 1 2592000000 2595600000, closedTrade BELI 100 105 1 0 60000] None
      = [\<lparr>type = REVENGE_TRADING, severity = HIGH, date = 0\<rparr>]"
  by (simp add: engine_defs)

end
